theory Spec2Isabelle
  imports Main
begin

section \<open>The expense resource: data model\<close>

text \<open>
  The handlers of \<^verbatim>\<open>src/app/expense.py\<close> work on three kinds of data: rows of the
  expense table, the dictionary a schema load returns, and the dictionary a schema dump
  produces. The amount is kept polymorphic (\<open>'a\<close>): the handlers only store and return
  it.
\<close>

text \<open>
  Modelled from the spec: the \<^verbatim>\<open>Expense\<close> model of \<^verbatim>\<open>app.db\<close> is not among the
  sources. The spec gives it the columns \<^verbatim>\<open>id\<close>, \<^verbatim>\<open>title\<close>, \<^verbatim>\<open>amount\<close> and an owner
  reference; the handlers name the owner column \<^verbatim>\<open>user_id\<close>. The column \<^verbatim>\<open>id\<close> is
  called \<open>eid\<close> here.
\<close>

record 'a expense =
  eid :: nat
  title :: string
  amount :: 'a
  user_id :: nat

text \<open>
  The result of \<^verbatim>\<open>expense_schema.load\<close>: a dictionary that holds a value for
  \<^verbatim>\<open>"title"\<close> and for \<^verbatim>\<open>"amount"\<close>, or lacks the key.
\<close>

record 'a data =
  data_title :: "string option"
  data_amount :: "'a option"

text \<open>
  Modelled from the spec: \<^verbatim>\<open>expense_schema.dump\<close> (\<^verbatim>\<open>app.schemas\<close> is not among
  the sources). The spec gives the record representation as id, title and amount, the
  owner not being exposed.
\<close>

record 'a expense_out =
  out_id :: nat
  out_title :: string
  out_amount :: 'a

definition dump :: "'a expense \<Rightarrow> 'a expense_out" where
  "dump e = \<lparr>out_id = eid e, out_title = title e, out_amount = amount e\<rparr>"

text \<open>
  What a handler hands back: a body with a status code, or an exception that no handler
  catches (the subscript \<^verbatim>\<open>data["title"]\<close> on a dictionary without the key).
  \<open>Not_Found\<close> is the page of the 404 abort raised by \<^verbatim>\<open>db.get_or_404\<close>.
\<close>

datatype ('a, 'm) body =
    Single "'a expense_out"
  | Many "'a expense_out list"
  | Error string
  | Messages 'm
  | Not_Found
  | Empty

datatype ('a, 'm) reply =
    Reply "('a, 'm) body" nat
  | KeyError string

text \<open>The two messages of the ownership check, as the UTF-8 bytes of the literals. The
  handlers for GET and DELETE spell the fifth word differently from the one for PATCH.\<close>

definition no_access :: string where
  "no_access = map char_of
     [208, 163, 32, 208, 178, 208, 176, 209, 129, 32, 208, 189, 208, 181, 208, 188, 208,
      176, 209, 148, 32, 208, 180, 208, 190, 209, 129, 209, 130, 209, 131, 208, 191, 209,
      131, 32, 208, 180, 208, 190, 32, 209, 134, 209, 150, 208, 181, 209, 151, 32, 208,
      178, 208, 184, 209, 130, 209, 128, 208, 176, 209, 130, 208, 184 :: nat]"

definition no_access_patch :: string where
  "no_access_patch = map char_of
     [208, 163, 32, 208, 178, 208, 176, 209, 129, 32, 208, 189, 208, 181, 208, 188, 208,
      176, 209, 148, 32, 208, 180, 208, 190, 209, 129, 209, 130, 209, 131, 208, 191, 209,
      131, 32, 208, 180, 208, 190, 32, 209, 134, 209, 150, 209, 148, 209, 151, 32, 208,
      178, 208, 184, 209, 130, 209, 128, 208, 176, 209, 130, 208, 184 :: nat]"

section \<open>The store\<close>

text \<open>
  The table of expenses, in the order of insertion. Every handler that changes the
  session commits right after, and returns before touching the session on each failure
  path, so a session operation and its commit are one step on the table.
\<close>

type_synonym 'a db = "'a expense list"

definition get_or_404 :: "'a db \<Rightarrow> nat \<Rightarrow> 'a expense option" where
  "get_or_404 db i = find (\<lambda>e. eid e = i) db"

text \<open>
  Modelled from the spec: the identifier is assigned by the store on creation and is
  unique. The store of \<^verbatim>\<open>app.db\<close> is not among the sources; the model takes the
  successor of the largest identifier of the table.
\<close>

definition new_id :: "'a db \<Rightarrow> nat" where
  "new_id db = Suc (foldr max (map eid db) 0)"

text \<open>\<^verbatim>\<open>db.session.add(new_expense); db.session.commit()\<close>: the row gets its identifier
  and is inserted. The row as stored is returned with the table.\<close>

definition add_commit :: "'a db \<Rightarrow> string \<Rightarrow> 'a \<Rightarrow> nat \<Rightarrow> 'a expense \<times> 'a db" where
  "add_commit db t a u =
     (let new_expense = \<lparr>eid = new_id db, title = t, amount = a, user_id = u\<rparr>
      in (new_expense, db @ [new_expense]))"

text \<open>\<^verbatim>\<open>db.session.commit()\<close> after attributes of a loaded row were assigned: the row
  with that primary key is written back.\<close>

definition update_commit :: "'a db \<Rightarrow> 'a expense \<Rightarrow> 'a db" where
  "update_commit db e = map (\<lambda>r. if eid r = eid e then e else r) db"

text \<open>\<^verbatim>\<open>db.session.delete(expense); db.session.commit()\<close>: the row with that primary
  key is removed.\<close>

definition delete_commit :: "'a db \<Rightarrow> 'a expense \<Rightarrow> 'a db" where
  "delete_commit db e = filter (\<lambda>r. eid r \<noteq> eid e) db"

text \<open>
  Modelled from the spec: \<^verbatim>\<open>current_user.expenses\<close>, a relationship declared in
  \<^verbatim>\<open>app.db\<close>, which is not among the sources. The spec has the table queryable by
  owning user: the rows whose owner is the caller, in the order of the store.
\<close>

definition expenses :: "'a db \<Rightarrow> nat \<Rightarrow> 'a expense list" where
  "expenses db u = filter (\<lambda>e. user_id e = u) db"

section \<open>The handlers\<close>

text \<open>
  Each handler takes what the source reads from its surroundings as arguments: the
  schema's \<^verbatim>\<open>load\<close> (its first argument is the \<^verbatim>\<open>partial\<close> flag; it returns the
  messages of a \<^verbatim>\<open>ValidationError\<close> or the loaded dictionary), the table, the
  identifier of \<^verbatim>\<open>current_user\<close> and the parsed body \<^verbatim>\<open>request.json\<close>. It returns
  the reply and the table as the request leaves it. The caller is authenticated: the
  decorator \<^verbatim>\<open>jwt_required\<close> has let the request through and resolved
  \<^verbatim>\<open>current_user\<close>; a body that is not JSON is turned away by the framework and is
  not a value of \<open>'p\<close>.
\<close>

definition create_expense ::
  "(bool \<Rightarrow> 'p \<Rightarrow> 'm + 'a data) \<Rightarrow> 'a db \<Rightarrow> nat \<Rightarrow> 'p \<Rightarrow> ('a, 'm) reply \<times> 'a db" where
  "create_expense load db current_user json_data =
     (case load False json_data of
        Inl messages \<Rightarrow> (Reply (Messages messages) 422, db)
      | Inr d \<Rightarrow>
          (case data_title d of
             None \<Rightarrow> (KeyError ''title'', db)
           | Some t \<Rightarrow>
               (case data_amount d of
                  None \<Rightarrow> (KeyError ''amount'', db)
                | Some a \<Rightarrow>
                    (let (new_expense, db') = add_commit db t a current_user
                     in (Reply (Single (dump new_expense)) 201, db')))))"

definition get_expenses :: "'a db \<Rightarrow> nat \<Rightarrow> ('a, 'm) reply \<times> 'a db" where
  "get_expenses db current_user = (Reply (Many (map dump (expenses db current_user))) 200, db)"

definition get_expense :: "'a db \<Rightarrow> nat \<Rightarrow> nat \<Rightarrow> ('a, 'm) reply \<times> 'a db" where
  "get_expense db current_user i =
     (case get_or_404 db i of
        None \<Rightarrow> (Reply Not_Found 404, db)
      | Some e \<Rightarrow>
          if user_id e \<noteq> current_user then (Reply (Error no_access) 401, db)
          else (Reply (Single (dump e)) 200, db))"

definition update_expense ::
  "(bool \<Rightarrow> 'p \<Rightarrow> 'm + 'a data) \<Rightarrow> 'a db \<Rightarrow> nat \<Rightarrow> nat \<Rightarrow> 'p \<Rightarrow> ('a, 'm) reply \<times> 'a db" where
  "update_expense load db current_user i json_data =
     (case get_or_404 db i of
        None \<Rightarrow> (Reply Not_Found 404, db)
      | Some e \<Rightarrow>
          if user_id e \<noteq> current_user then (Reply (Error no_access_patch) 401, db)
          else
            (case load True json_data of
               Inl messages \<Rightarrow> (Reply (Messages messages) 422, db)
             | Inr d \<Rightarrow>
                 (let e1 = e\<lparr>title := (case data_title d of None \<Rightarrow> title e | Some t \<Rightarrow> t)\<rparr>;
                      e2 = e1\<lparr>amount := (case data_amount d of None \<Rightarrow> amount e1 | Some a \<Rightarrow> a)\<rparr>
                  in (Reply (Single (dump e2)) 200, update_commit db e2))))"

definition delete_expense :: "'a db \<Rightarrow> nat \<Rightarrow> nat \<Rightarrow> ('a, 'm) reply \<times> 'a db" where
  "delete_expense db current_user i =
     (case get_or_404 db i of
        None \<Rightarrow> (Reply Not_Found 404, db)
      | Some e \<Rightarrow>
          if user_id e \<noteq> current_user then (Reply (Error no_access) 401, db)
          else (Reply Empty 204, delete_commit db e))"

text \<open>The routes of the blueprint: one request per decorated handler.\<close>

datatype 'p request =
    POST 'p
  | GET_ALL
  | GET nat
  | PATCH nat 'p
  | DELETE nat

fun handle ::
  "(bool \<Rightarrow> 'p \<Rightarrow> 'm + 'a data) \<Rightarrow> 'a db \<Rightarrow> nat \<Rightarrow> 'p request \<Rightarrow> ('a, 'm) reply \<times> 'a db" where
  "handle load db u (POST p) = create_expense load db u p"
| "handle load db u GET_ALL = get_expenses db u"
| "handle load db u (GET i) = get_expense db u i"
| "handle load db u (PATCH i p) = update_expense load db u i p"
| "handle load db u (DELETE i) = delete_expense db u i"

text \<open>A request fails when its reply carries a client or server error status, or when
  an exception escapes the handler.\<close>

fun failed :: "('a, 'm) reply \<Rightarrow> bool" where
  "failed (Reply b s) = (400 \<le> s)"
| "failed (KeyError k) = True"

section \<open>A schema for concrete requests\<close>

text \<open>
  The handlers above work with any schema. To run them on concrete requests, a body is a
  JSON object given as the list of its members (a later member of the same name
  overrides an earlier one), with integers for numbers, and the messages of a validation
  error map a field name to what is wrong with the field.
\<close>

datatype json = JNull | JBool bool | JNum int | JStr string

datatype problem = Missing | Malformed

type_synonym payload = "(string \<times> json) list"

type_synonym messages = "(string \<times> problem list) list"

text \<open>
  Modelled from the spec: \<^verbatim>\<open>expense_schema.load\<close>; the schema of \<^verbatim>\<open>app.schemas\<close>
  is not among the sources. The spec describes its input as the fields \<^verbatim>\<open>title\<close>
  (required text) and \<^verbatim>\<open>amount\<close> (required number), in partial mode any subset of
  them, a present but malformed field failing in both modes, and its errors as a mapping
  from field name to messages.
\<close>

definition load_title :: "bool \<Rightarrow> payload \<Rightarrow> problem list + string option" where
  "load_title partial p =
     (case map_of (rev p) ''title'' of
        None \<Rightarrow> if partial then Inr None else Inl [Missing]
      | Some (JStr s) \<Rightarrow> Inr (Some s)
      | Some _ \<Rightarrow> Inl [Malformed])"

definition load_amount :: "bool \<Rightarrow> payload \<Rightarrow> problem list + int option" where
  "load_amount partial p =
     (case map_of (rev p) ''amount'' of
        None \<Rightarrow> if partial then Inr None else Inl [Missing]
      | Some (JNum n) \<Rightarrow> Inr (Some n)
      | Some _ \<Rightarrow> Inl [Malformed])"

definition schema_load :: "bool \<Rightarrow> payload \<Rightarrow> messages + int data" where
  "schema_load partial p =
     (case (load_title partial p, load_amount partial p) of
        (Inr t, Inr a) \<Rightarrow> Inr \<lparr>data_title = t, data_amount = a\<rparr>
      | (Inl pt, Inr a) \<Rightarrow> Inl [(''title'', pt)]
      | (Inr t, Inl pa) \<Rightarrow> Inl [(''amount'', pa)]
      | (Inl pt, Inl pa) \<Rightarrow> Inl [(''title'', pt), (''amount'', pa)])"

text \<open>A table with two rows, of two owners, for the concrete requests below.\<close>

definition sample_db :: "int db" where
  "sample_db =
     [\<lparr>eid = 1, title = ''Rent'', amount = 100, user_id = 1\<rparr>,
      \<lparr>eid = 2, title = ''Food'', amount = 40, user_id = 2\<rparr>]"

section \<open>Facts about the store\<close>

lemma get_or_404_eid: "get_or_404 db i = Some e \<Longrightarrow> eid e = i"
  by (induction db) (auto simp: get_or_404_def split: if_splits)

lemma get_or_404_mem: "get_or_404 db i = Some e \<Longrightarrow> e \<in> set db"
  by (induction db) (auto simp: get_or_404_def split: if_splits)

lemma foldr_max_upper: "x \<in> set xs \<Longrightarrow> x \<le> foldr max xs (b::nat)"
  by (induction xs) auto

lemma new_id_fresh: "e \<in> set db \<Longrightarrow> eid e < new_id db"
  using foldr_max_upper [of "eid e" "map eid db" 0] by (simp add: new_id_def less_Suc_eq_le)

lemma get_or_404_new_id: "get_or_404 db (new_id db) = None"
proof (cases "get_or_404 db (new_id db)")
  case None
  then show ?thesis .
next
  case (Some e)
  then have "eid e = new_id db" and "e \<in> set db"
    by (simp_all add: get_or_404_eid get_or_404_mem)
  then show ?thesis using new_id_fresh [of e db] by simp
qed

lemma get_or_404_append:
  "get_or_404 (db @ [n]) i =
     (case get_or_404 db i of Some e \<Rightarrow> Some e | None \<Rightarrow> if eid n = i then Some n else None)"
  by (induction db) (simp_all add: get_or_404_def)

lemma get_or_404_update_commit:
  "get_or_404 (update_commit db e) i =
     (if i = eid e then (case get_or_404 db i of None \<Rightarrow> None | Some r \<Rightarrow> Some e)
      else get_or_404 db i)"
  by (induction db) (auto simp: get_or_404_def update_commit_def)

lemma get_or_404_delete_commit:
  "get_or_404 (delete_commit db e) i = (if i = eid e then None else get_or_404 db i)"
  by (induction db) (auto simp: get_or_404_def delete_commit_def)

lemma update_commit_same:
  assumes "distinct (map eid db)" and "e \<in> set db"
  shows "update_commit db e = db"
proof -
  have "inj_on eid (set db)"
    using assms(1) by (simp add: distinct_map)
  then have "\<forall>r\<in>set db. (if eid r = eid e then e else r) = r"
    using assms(2) by (auto dest: inj_onD)
  then show ?thesis
    unfolding update_commit_def by (simp add: map_idI)
qed

lemma new_id_not_used: "new_id db \<notin> eid ` set db"
proof
  assume "new_id db \<in> eid ` set db"
  then obtain e where "e \<in> set db" and "new_id db = eid e"
    by auto
  then show False
    using new_id_fresh [of e db] by simp
qed

lemma distinct_add_commit:
  "distinct (map eid db) \<Longrightarrow> distinct (map eid (snd (add_commit db t a u)))"
  by (simp add: add_commit_def Let_def new_id_not_used)

lemma distinct_update_commit:
  "distinct (map eid db) \<Longrightarrow> distinct (map eid (update_commit db e))"
proof -
  have "map eid (update_commit db e) = map eid db"
    by (simp add: update_commit_def)
  then show "distinct (map eid db) \<Longrightarrow> distinct (map eid (update_commit db e))"
    by simp
qed

lemma distinct_delete_commit:
  "distinct (map eid db) \<Longrightarrow> distinct (map eid (delete_commit db e))"
  by (simp add: delete_commit_def distinct_map_filter)

text \<open>The primary key stays a key: no request makes two rows share an identifier.\<close>

lemma handle_keeps_key:
  "distinct (map eid db) \<Longrightarrow> distinct (map eid (snd (handle load db u req)))"
proof (cases req)
  case (POST p)
  assume "distinct (map eid db)"
  then show ?thesis
    by (auto simp: POST create_expense_def add_commit_def Let_def new_id_not_used
          split: sum.splits option.splits)
next
  case GET_ALL
  assume "distinct (map eid db)"
  then show ?thesis by (simp add: GET_ALL get_expenses_def)
next
  case (GET i)
  assume "distinct (map eid db)"
  then show ?thesis by (simp add: GET get_expense_def split: option.splits)
next
  case (PATCH i p)
  assume "distinct (map eid db)"
  then show ?thesis
    by (simp add: PATCH update_expense_def distinct_update_commit Let_def
          split: option.splits sum.splits)
next
  case (DELETE i)
  assume "distinct (map eid db)"
  then show ?thesis
    by (simp add: DELETE delete_expense_def distinct_delete_commit split: option.splits)
qed

text \<open>What a request can do to the record found under an identifier.\<close>

lemma create_expense_lookup:
  assumes "get_or_404 (snd (create_expense load db u p)) i = Some e'"
  shows "get_or_404 db i = Some e' \<or> (get_or_404 db i = None \<and> user_id e' = u)"
proof (cases "get_or_404 db i")
  case None
  then show ?thesis
    using assms
    by (auto simp: create_expense_def add_commit_def Let_def get_or_404_append
          split: sum.splits option.splits if_splits)
next
  case (Some e)
  then show ?thesis
    using assms
    by (auto simp: create_expense_def add_commit_def Let_def get_or_404_append
          split: sum.splits option.splits)
qed

lemma update_expense_lookup:
  assumes "get_or_404 (snd (update_expense load db u j p)) i = Some e'"
  shows "\<exists>e. get_or_404 db i = Some e \<and> user_id e' = user_id e"
proof (cases "get_or_404 db j")
  case None
  then show ?thesis
    using assms by (simp add: update_expense_def)
next
  case (Some r)
  then have "eid r = j"
    by (rule get_or_404_eid)
  then show ?thesis
    using assms Some
    by (auto simp: update_expense_def Let_def get_or_404_update_commit
          split: sum.splits if_splits option.splits)
qed

lemma delete_expense_lookup:
  assumes "get_or_404 (snd (delete_expense db u j)) i = Some e'"
  shows "get_or_404 db i = Some e'"
  using assms
  by (auto simp: delete_expense_def get_or_404_delete_commit split: option.splits if_splits)

section \<open>The tests of the repository, on the model\<close>

text \<open>
  \<^verbatim>\<open>test_no_expenses_list\<close>: a user without expenses gets 200 and the empty list.
\<close>

lemma test_no_expenses_list:
  "fst (get_expenses sample_db 3 :: (int, messages) reply \<times> int db) = Reply (Many []) 200"
  by (simp add: get_expenses_def expenses_def sample_db_def)

text \<open>
  \<^verbatim>\<open>test_full_expense_flow\<close>: create, get, patch the title, delete; each status and
  title is the one the test asserts. The last line is the get that the scenario of the
  spec adds after the delete.
\<close>

lemma test_full_expense_flow:
  "(let (created, db1) =
          create_expense schema_load sample_db 1 [(''title'', JStr ''Expense''), (''amount'', JNum 100)];
        (received, db2) = get_expense db1 1 3;
        (updated, db3) = update_expense schema_load db2 1 3 [(''title'', JStr ''Updated Expense'')];
        (deleted, db4) = delete_expense db3 1 3;
        (missing, db5) = get_expense db4 1 3
    in created = Reply (Single \<lparr>out_id = 3, out_title = ''Expense'', out_amount = 100\<rparr>) 201 \<and>
       received = Reply (Single \<lparr>out_id = 3, out_title = ''Expense'', out_amount = 100\<rparr>) 200 \<and>
       updated = Reply (Single \<lparr>out_id = 3, out_title = ''Updated Expense'', out_amount = 100\<rparr>) 200 \<and>
       deleted = Reply Empty 204 \<and>
       missing = (Reply Not_Found 404 :: (int, messages) reply) \<and>
       db5 = sample_db)"
  by (simp add: create_expense_def get_expense_def update_expense_def delete_expense_def
        schema_load_def load_title_def load_amount_def add_commit_def update_commit_def
        delete_commit_def get_or_404_def new_id_def dump_def sample_db_def Let_def)

section \<open>Properties of the handlers\<close>

text \<open>
  C1. When the record with the requested identifier exists and its owner is not the
  caller, get, update and delete each answer 401 with the message of the ownership check,
  a fixed text in which no field of the record occurs: the three replies are the same
  whatever title and amount the record holds. When no record has the identifier, each of
  the three answers with the 404 of \<^verbatim>\<open>get_or_404\<close>.
\<close>

theorem not_owner_and_not_found:
  fixes load :: "bool \<Rightarrow> 'p \<Rightarrow> 'm + 'a data"
  shows
  "(get_or_404 db i = Some e \<and> user_id e \<noteq> u \<longrightarrow>
      fst (get_expense db u i :: ('a, 'm) reply \<times> 'a db) = Reply (Error no_access) 401 \<and>
      fst (update_expense load db u i p) = Reply (Error no_access_patch) 401 \<and>
      fst (delete_expense db u i :: ('a, 'm) reply \<times> 'a db) = Reply (Error no_access) 401 \<and>
      (\<forall>t a.
         fst (get_expense (update_commit db (e\<lparr>title := t, amount := a\<rparr>)) u i
                :: ('a, 'm) reply \<times> 'a db) = fst (get_expense db u i) \<and>
         fst (update_expense load (update_commit db (e\<lparr>title := t, amount := a\<rparr>)) u i p)
           = fst (update_expense load db u i p) \<and>
         fst (delete_expense (update_commit db (e\<lparr>title := t, amount := a\<rparr>)) u i
                :: ('a, 'm) reply \<times> 'a db) = fst (delete_expense db u i))) \<and>
   (get_or_404 db i = None \<longrightarrow>
      fst (get_expense db u i :: ('a, 'm) reply \<times> 'a db) = Reply Not_Found 404 \<and>
      fst (update_expense load db u i p) = Reply Not_Found 404 \<and>
      fst (delete_expense db u i :: ('a, 'm) reply \<times> 'a db) = Reply Not_Found 404)"
proof -
  have hidden: "get_or_404 (update_commit db (e\<lparr>title := t, amount := a\<rparr>)) i
                  = Some (e\<lparr>title := t, amount := a\<rparr>)"
    if "get_or_404 db i = Some e" for t a
    using that get_or_404_eid [OF that] by (simp add: get_or_404_update_commit)
  show ?thesis
    by (simp add: get_expense_def update_expense_def delete_expense_def hidden)
qed

theorem not_owner_and_not_found_witness:
  "get_or_404 sample_db 2 = Some \<lparr>eid = 2, title = ''Food'', amount = 40, user_id = 2\<rparr> \<and>
   user_id \<lparr>eid = 2, title = ''Food'', amount = 40 :: int, user_id = 2\<rparr> \<noteq> 1 \<and>
   fst (get_expense sample_db 1 2 :: (int, messages) reply \<times> int db) = Reply (Error no_access) 401 \<and>
   fst (update_expense schema_load sample_db 1 2 [(''title'', JStr ''Mine'')])
     = Reply (Error no_access_patch) 401 \<and>
   fst (delete_expense sample_db 1 2 :: (int, messages) reply \<times> int db) = Reply (Error no_access) 401 \<and>
   fst (get_expense
          (update_commit sample_db \<lparr>eid = 2, title = ''Secret'', amount = 9, user_id = 2\<rparr>) 1 2
        :: (int, messages) reply \<times> int db) = Reply (Error no_access) 401 \<and>
   get_or_404 sample_db 7 = None \<and>
   fst (get_expense sample_db 1 7 :: (int, messages) reply \<times> int db) = Reply Not_Found 404 \<and>
   fst (update_expense schema_load sample_db 1 7 [(''title'', JStr ''Mine'')]) = Reply Not_Found 404 \<and>
   fst (delete_expense sample_db 1 7 :: (int, messages) reply \<times> int db) = Reply Not_Found 404"
proof -
  have found: "get_or_404 sample_db 2 = Some \<lparr>eid = 2, title = ''Food'', amount = 40, user_id = 2\<rparr>"
    by (simp add: get_or_404_def sample_db_def)
  have absent: "get_or_404 sample_db 7 = None"
    by (simp add: get_or_404_def sample_db_def)
  have hidden: "get_or_404 (update_commit sample_db
                   \<lparr>eid = 2, title = ''Secret'', amount = 9, user_id = 2\<rparr>) 2
                  = Some \<lparr>eid = 2, title = ''Secret'', amount = 9, user_id = 2\<rparr>"
    by (simp add: get_or_404_def update_commit_def sample_db_def)
  show ?thesis
    using found absent
      not_owner_and_not_found [where db = sample_db and i = 2 and u = 1 and load = schema_load
        and e = "\<lparr>eid = 2, title = ''Food'', amount = 40, user_id = 2\<rparr>"
        and p = "[(''title'', JStr ''Mine'')]"]
      not_owner_and_not_found [where db = sample_db and i = 7 and u = 1 and load = schema_load
        and e = "\<lparr>eid = 2, title = ''Food'', amount = 40, user_id = 2\<rparr>"
        and p = "[(''title'', JStr ''Mine'')]"]
    by (simp add: get_expense_def hidden)
qed

text \<open>
  C2. When a body passes the full validation and the loaded dictionary holds the title
  \<open>t\<close> and the amount \<open>a\<close>, create appends exactly one row to the table, with a fresh
  identifier, these two values and the caller as owner, and answers 201 with the dump of
  that row; a get by the same caller on the new identifier then answers 200 with the
  same title and amount.
\<close>

theorem create_then_get:
  fixes load :: "bool \<Rightarrow> 'p \<Rightarrow> 'm + 'a data"
  assumes "load False p = Inr d" and "data_title d = Some t" and "data_amount d = Some a"
  shows "fst (create_expense load db u p)
           = Reply (Single \<lparr>out_id = new_id db, out_title = t, out_amount = a\<rparr>) 201 \<and>
         snd (create_expense load db u p)
           = db @ [\<lparr>eid = new_id db, title = t, amount = a, user_id = u\<rparr>] \<and>
         new_id db \<notin> eid ` set db \<and>
         get_or_404 db (new_id db) = None \<and>
         fst (get_expense (snd (create_expense load db u p)) u (new_id db)
                :: ('a, 'm) reply \<times> 'a db)
           = Reply (Single \<lparr>out_id = new_id db, out_title = t, out_amount = a\<rparr>) 200"
proof -
  let ?n = "\<lparr>eid = new_id db, title = t, amount = a, user_id = u\<rparr>"
  have created: "create_expense load db u p = (Reply (Single (dump ?n)) 201, db @ [?n])"
    using assms by (simp add: create_expense_def add_commit_def Let_def)
  have fresh: "new_id db \<notin> eid ` set db"
    by (rule new_id_not_used)
  have absent: "get_or_404 db (new_id db) = None"
    by (rule get_or_404_new_id)
  have "get_or_404 (db @ [?n]) (new_id db) = Some ?n"
    by (simp add: get_or_404_append absent)
  then have "(get_expense (db @ [?n]) u (new_id db) :: ('a, 'm) reply \<times> 'a db)
               = (Reply (Single (dump ?n)) 200, db @ [?n])"
    by (simp add: get_expense_def)
  then show ?thesis
    using created fresh absent by (simp add: dump_def)
qed

theorem create_then_get_witness:
  "schema_load False [(''title'', JStr ''Expense''), (''amount'', JNum 100)]
     = Inr \<lparr>data_title = Some ''Expense'', data_amount = Some 100\<rparr> \<and>
   fst (create_expense schema_load sample_db 1 [(''title'', JStr ''Expense''), (''amount'', JNum 100)])
     = Reply (Single \<lparr>out_id = 3, out_title = ''Expense'', out_amount = 100\<rparr>) 201 \<and>
   snd (create_expense schema_load sample_db 1 [(''title'', JStr ''Expense''), (''amount'', JNum 100)])
     = sample_db @ [\<lparr>eid = 3, title = ''Expense'', amount = 100, user_id = 1\<rparr>] \<and>
   fst (get_expense
          (snd (create_expense schema_load sample_db 1
                  [(''title'', JStr ''Expense''), (''amount'', JNum 100)])) 1 3
        :: (int, messages) reply \<times> int db)
     = Reply (Single \<lparr>out_id = 3, out_title = ''Expense'', out_amount = 100\<rparr>) 200"
proof -
  let ?p = "[(''title'', JStr ''Expense''), (''amount'', JNum 100)]"
  have loaded: "schema_load False ?p = Inr \<lparr>data_title = Some ''Expense'', data_amount = Some 100\<rparr>"
    by (simp add: schema_load_def load_title_def load_amount_def)
  have next_id: "new_id sample_db = 3"
    by (simp add: new_id_def sample_db_def)
  show ?thesis
    using loaded next_id
      create_then_get [of schema_load ?p "\<lparr>data_title = Some ''Expense'', data_amount = Some 100\<rparr>"
        "''Expense''" 100 sample_db 1]
    by auto
qed

text \<open>
  C3. The list handler answers 200 with the dumps of exactly the rows whose owner is the
  caller, in the order of the table, and leaves the table as it was; when the caller owns
  no row the collection is empty and the status is still 200.
\<close>

theorem list_owned:
  "(get_expenses db u :: ('a, 'm) reply \<times> 'a db)
     = (Reply (Many (map dump (filter (\<lambda>e. user_id e = u) db))) 200, db) \<and>
   ((\<forall>e\<in>set db. user_id e \<noteq> u) \<longrightarrow>
      fst (get_expenses db u :: ('a, 'm) reply \<times> 'a db) = Reply (Many []) 200)"
proof -
  have "(\<forall>e\<in>set db. user_id e \<noteq> u) \<longrightarrow> filter (\<lambda>e. user_id e = u) db = []"
    by (simp add: filter_empty_conv)
  then show ?thesis
    by (auto simp: get_expenses_def expenses_def)
qed

theorem list_owned_witness:
  "(get_expenses sample_db 2 :: (int, messages) reply \<times> int db)
     = (Reply (Many [\<lparr>out_id = 2, out_title = ''Food'', out_amount = 40\<rparr>]) 200, sample_db) \<and>
   list_all (\<lambda>e. user_id e \<noteq> 3) sample_db \<and>
   fst (get_expenses sample_db 3 :: (int, messages) reply \<times> int db) = Reply (Many []) 200"
proof -
  have none: "\<forall>e\<in>set sample_db. user_id e \<noteq> 3"
    by (simp add: sample_db_def)
  have owned: "map dump (filter (\<lambda>e. user_id e = 2) sample_db)
                 = [\<lparr>out_id = 2, out_title = ''Food'', out_amount = 40\<rparr>]"
    by (simp add: sample_db_def dump_def)
  show ?thesis
    using none owned list_owned [of sample_db 2, where ?'m = messages]
      list_owned [of sample_db 3, where ?'m = messages]
    by (simp add: list_all_iff)
qed

text \<open>
  C4. On a record that exists and is owned by the caller, with a body that passes the
  partial validation, update answers 200 with the dump of the updated record, and the
  table then holds that record under the same identifier. Its title is the loaded title
  when the dictionary has one and the former title otherwise; likewise for the amount.
  So a body with only a title leaves the amount, and a body with only an amount leaves
  the title. Identifier and owner stay, and no other identifier is affected.
\<close>

theorem update_partial:
  assumes "get_or_404 db i = Some e" and "user_id e = u" and "load True p = Inr d"
  shows "\<exists>e'. fst (update_expense load db u i p) = Reply (Single (dump e')) 200 \<and>
           get_or_404 (snd (update_expense load db u i p)) i = Some e' \<and>
           title e' = (case data_title d of None \<Rightarrow> title e | Some t \<Rightarrow> t) \<and>
           amount e' = (case data_amount d of None \<Rightarrow> amount e | Some a \<Rightarrow> a) \<and>
           eid e' = eid e \<and> user_id e' = user_id e \<and>
           (\<forall>j. j \<noteq> i \<longrightarrow>
              get_or_404 (snd (update_expense load db u i p)) j = get_or_404 db j)"
proof -
  let ?e' = "e\<lparr>title := (case data_title d of None \<Rightarrow> title e | Some t \<Rightarrow> t),
               amount := (case data_amount d of None \<Rightarrow> amount e | Some a \<Rightarrow> a)\<rparr>"
  have key: "eid e = i"
    using assms(1) by (rule get_or_404_eid)
  have run: "update_expense load db u i p = (Reply (Single (dump ?e')) 200, update_commit db ?e')"
    using assms by (simp add: update_expense_def Let_def split: option.split)
  have stored: "get_or_404 (update_commit db ?e') i = Some ?e'"
    using assms(1) key by (simp add: get_or_404_update_commit)
  have others: "\<forall>j. j \<noteq> i \<longrightarrow> get_or_404 (update_commit db ?e') j = get_or_404 db j"
    using key by (simp add: get_or_404_update_commit)
  show ?thesis
    using run stored others by (intro exI [of _ ?e']) simp
qed

theorem update_partial_witness:
  "get_or_404 sample_db 1 = Some \<lparr>eid = 1, title = ''Rent'', amount = 100, user_id = 1\<rparr> \<and>
   schema_load True [(''title'', JStr ''Updated Expense'')]
     = Inr \<lparr>data_title = Some ''Updated Expense'', data_amount = None\<rparr> \<and>
   fst (update_expense schema_load sample_db 1 1 [(''title'', JStr ''Updated Expense'')])
     = Reply (Single \<lparr>out_id = 1, out_title = ''Updated Expense'', out_amount = 100\<rparr>) 200 \<and>
   get_or_404 (snd (update_expense schema_load sample_db 1 1 [(''title'', JStr ''Updated Expense'')])) 1
     = Some \<lparr>eid = 1, title = ''Updated Expense'', amount = 100, user_id = 1\<rparr> \<and>
   schema_load True [(''amount'', JNum 7)] = Inr \<lparr>data_title = None, data_amount = Some 7\<rparr> \<and>
   get_or_404 (snd (update_expense schema_load sample_db 1 1 [(''amount'', JNum 7)])) 1
     = Some \<lparr>eid = 1, title = ''Rent'', amount = 7, user_id = 1\<rparr>"
proof -
  let ?e = "\<lparr>eid = 1, title = ''Rent'', amount = 100 :: int, user_id = 1\<rparr>"
  let ?p = "[(''title'', JStr ''Updated Expense'')]"
  let ?q = "[(''amount'', JNum 7)]"
  have found: "get_or_404 sample_db 1 = Some ?e"
    by (simp add: get_or_404_def sample_db_def)
  have owner: "user_id ?e = 1"
    by simp
  have loaded_p: "schema_load True ?p = Inr \<lparr>data_title = Some ''Updated Expense'', data_amount = None\<rparr>"
    by (simp add: schema_load_def load_title_def load_amount_def)
  have loaded_q: "schema_load True ?q = Inr \<lparr>data_title = None, data_amount = Some 7\<rparr>"
    by (simp add: schema_load_def load_title_def load_amount_def)
  obtain e' where p1: "fst (update_expense schema_load sample_db 1 1 ?p) = Reply (Single (dump e')) 200"
      and p2: "get_or_404 (snd (update_expense schema_load sample_db 1 1 ?p)) 1 = Some e'"
      and p3: "title e' = ''Updated Expense''" and p4: "amount e' = 100"
      and p5: "eid e' = 1" and p6: "user_id e' = 1"
    using update_partial [where load = schema_load and p = ?p, OF found owner loaded_p] by auto
  obtain e'' where q2: "get_or_404 (snd (update_expense schema_load sample_db 1 1 ?q)) 1 = Some e''"
      and q3: "title e'' = ''Rent''" and q4: "amount e'' = 7"
      and q5: "eid e'' = 1" and q6: "user_id e'' = 1"
    using update_partial [where load = schema_load and p = ?q, OF found owner loaded_q] by auto
  have "e' = \<lparr>eid = 1, title = ''Updated Expense'', amount = 100, user_id = 1\<rparr>"
    using p3 p4 p5 p6 by (cases e') simp
  moreover have "e'' = \<lparr>eid = 1, title = ''Rent'', amount = 7, user_id = 1\<rparr>"
    using q3 q4 q5 q6 by (cases e'') simp
  ultimately show ?thesis
    using found loaded_p loaded_q p1 p2 q2 by (simp add: dump_def)
qed

text \<open>
  C5. On a record that exists and is owned by the caller, delete answers 204 with an
  empty body and the table no longer holds a record under that identifier, every other
  identifier being as before. After that a delete, a get and an update on the same
  identifier, by any caller, answer 404.
\<close>

theorem delete_then_not_found:
  fixes load :: "bool \<Rightarrow> 'p \<Rightarrow> 'm + 'a data"
  assumes "get_or_404 db i = Some e" and "user_id e = u"
  shows "fst (delete_expense db u i :: ('a, 'm) reply \<times> 'a db) = Reply Empty 204 \<and>
         get_or_404 (snd (delete_expense db u i :: ('a, 'm) reply \<times> 'a db)) i = None \<and>
         (\<forall>j. j \<noteq> i \<longrightarrow>
            get_or_404 (snd (delete_expense db u i :: ('a, 'm) reply \<times> 'a db)) j = get_or_404 db j) \<and>
         fst (delete_expense (snd (delete_expense db u i :: ('a, 'm) reply \<times> 'a db)) v i
                :: ('a, 'm) reply \<times> 'a db) = Reply Not_Found 404 \<and>
         fst (get_expense (snd (delete_expense db u i :: ('a, 'm) reply \<times> 'a db)) v i
                :: ('a, 'm) reply \<times> 'a db) = Reply Not_Found 404 \<and>
         fst (update_expense load (snd (delete_expense db u i :: ('a, 'm) reply \<times> 'a db)) v i p)
           = Reply Not_Found 404"
proof -
  have key: "eid e = i"
    using assms(1) by (rule get_or_404_eid)
  have run: "(delete_expense db u i :: ('a, 'm) reply \<times> 'a db) = (Reply Empty 204, delete_commit db e)"
    using assms by (simp add: delete_expense_def)
  have gone: "get_or_404 (delete_commit db e) i = None"
    using key by (simp add: get_or_404_delete_commit)
  have others: "\<forall>j. j \<noteq> i \<longrightarrow> get_or_404 (delete_commit db e) j = get_or_404 db j"
    using key by (simp add: get_or_404_delete_commit)
  show ?thesis
    unfolding run using gone others
    by (simp add: delete_expense_def get_expense_def update_expense_def)
qed

theorem delete_then_not_found_witness:
  "get_or_404 sample_db 1 = Some \<lparr>eid = 1, title = ''Rent'', amount = 100, user_id = 1\<rparr> \<and>
   (delete_expense sample_db 1 1 :: (int, messages) reply \<times> int db)
     = (Reply Empty 204, [\<lparr>eid = 2, title = ''Food'', amount = 40, user_id = 2\<rparr>]) \<and>
   fst (delete_expense [\<lparr>eid = 2, title = ''Food'', amount = 40, user_id = 2\<rparr>] 1 1
          :: (int, messages) reply \<times> int db) = Reply Not_Found 404 \<and>
   fst (get_expense [\<lparr>eid = 2, title = ''Food'', amount = 40, user_id = 2\<rparr>] 1 1
          :: (int, messages) reply \<times> int db) = Reply Not_Found 404"
proof -
  let ?e = "\<lparr>eid = 1, title = ''Rent'', amount = 100 :: int, user_id = 1\<rparr>"
  have found: "get_or_404 sample_db 1 = Some ?e"
    by (simp add: get_or_404_def sample_db_def)
  have owner: "user_id ?e = 1"
    by simp
  have run: "(delete_expense sample_db 1 1 :: (int, messages) reply \<times> int db)
               = (Reply Empty 204, [\<lparr>eid = 2, title = ''Food'', amount = 40, user_id = 2\<rparr>])"
    by (simp add: delete_expense_def get_or_404_def delete_commit_def sample_db_def)
  show ?thesis
    using found run
      delete_then_not_found [where load = schema_load and v = 1 and p = "[]", OF found owner]
    by simp
qed

text \<open>
  C6. When the full validation of the body fails, create answers 422 with the messages
  of the validation error. When the partial validation of the body fails, update, on a
  record that exists and is owned by the caller, answers 422 with the messages as well.
\<close>

theorem validation_failure:
  "(load False p = Inl m \<longrightarrow> fst (create_expense load db u p) = Reply (Messages m) 422) \<and>
   (get_or_404 db i = Some e \<and> user_id e = u \<and> load True q = Inl m' \<longrightarrow>
      fst (update_expense load db u i q) = Reply (Messages m') 422)"
  by (simp add: create_expense_def update_expense_def)

theorem validation_failure_witness:
  "schema_load False [(''title'', JStr ''Expense'')] = Inl [(''amount'', [Missing])] \<and>
   fst (create_expense schema_load sample_db 1 [(''title'', JStr ''Expense'')])
     = Reply (Messages [(''amount'', [Missing])]) 422 \<and>
   get_or_404 sample_db 1 = Some \<lparr>eid = 1, title = ''Rent'', amount = 100, user_id = 1\<rparr> \<and>
   schema_load True [(''amount'', JStr ''much'')] = Inl [(''amount'', [Malformed])] \<and>
   fst (update_expense schema_load sample_db 1 1 [(''amount'', JStr ''much'')])
     = Reply (Messages [(''amount'', [Malformed])]) 422"
proof -
  let ?e = "\<lparr>eid = 1, title = ''Rent'', amount = 100 :: int, user_id = 1\<rparr>"
  have full: "schema_load False [(''title'', JStr ''Expense'')] = Inl [(''amount'', [Missing])]"
    by (simp add: schema_load_def load_title_def load_amount_def)
  have part: "schema_load True [(''amount'', JStr ''much'')] = Inl [(''amount'', [Malformed])]"
    by (simp add: schema_load_def load_title_def load_amount_def)
  have found: "get_or_404 sample_db 1 = Some ?e"
    by (simp add: get_or_404_def sample_db_def)
  show ?thesis
    using full part found
      validation_failure [where load = schema_load and p = "[(''title'', JStr ''Expense'')]"
        and m = "[(''amount'', [Missing])]" and db = sample_db and u = 1 and i = 1 and e = ?e
        and q = "[(''amount'', JStr ''much'')]" and m' = "[(''amount'', [Malformed])]"]
    by simp
qed

text \<open>
  C7. Whatever the request, when it fails (a reply with an error status, which covers
  the 422 of a validation failure, the 401 of the ownership check and the 404 of a
  missing record, or an exception that escapes the handler) the table is exactly what it
  was before: a table changes only in a request that succeeds.
\<close>

theorem failure_keeps_store:
  "failed (fst (handle load db u req)) \<Longrightarrow> snd (handle load db u req) = db"
proof (cases req)
  case (POST p)
  assume "failed (fst (handle load db u req))"
  then show ?thesis
    by (auto simp: POST create_expense_def add_commit_def Let_def
          split: sum.splits option.splits)
next
  case GET_ALL
  then show ?thesis by (simp add: get_expenses_def)
next
  case (GET i)
  then show ?thesis by (simp add: get_expense_def split: option.splits)
next
  case (PATCH i p)
  assume "failed (fst (handle load db u req))"
  then show ?thesis
    by (auto simp: PATCH update_expense_def Let_def split: sum.splits option.splits if_splits)
next
  case (DELETE i)
  assume "failed (fst (handle load db u req))"
  then show ?thesis
    by (auto simp: DELETE delete_expense_def split: option.splits if_splits)
qed

theorem failure_keeps_store_witness:
  "failed (fst (handle schema_load sample_db 1 (PATCH 2 [(''title'', JStr ''Mine'')]))) \<and>
   snd (handle schema_load sample_db 1 (PATCH 2 [(''title'', JStr ''Mine'')])) = sample_db \<and>
   failed (fst (handle schema_load sample_db 1 (POST [(''title'', JNum 5)]))) \<and>
   snd (handle schema_load sample_db 1 (POST [(''title'', JNum 5)])) = sample_db \<and>
   failed (fst (handle schema_load sample_db 1 (DELETE 9))) \<and>
   snd (handle schema_load sample_db 1 (DELETE 9)) = sample_db"
proof -
  have patch: "failed (fst (handle schema_load sample_db 1 (PATCH 2 [(''title'', JStr ''Mine'')])))"
    by (simp add: update_expense_def get_or_404_def sample_db_def)
  have post: "failed (fst (handle schema_load sample_db 1 (POST [(''title'', JNum 5)])))"
    by (simp add: create_expense_def schema_load_def load_title_def load_amount_def)
  have delete: "failed (fst (handle schema_load sample_db 1 (DELETE 9)
                  :: (int, messages) reply \<times> int db))"
    by (simp add: delete_expense_def get_or_404_def sample_db_def)
  show ?thesis
    using patch post delete
      failure_keeps_store [OF patch] failure_keeps_store [OF post] failure_keeps_store [OF delete]
    by simp
qed

text \<open>
  C8. Whatever the request, a record that is in the table before and after it has the
  same owner; and a record that is in the table after the request under an identifier
  that had none before was created by this request, a POST, with the caller as owner.
  So the owner is set when the record is created and no handler changes it.
\<close>

theorem owner_never_changes:
  "(get_or_404 db i = Some e \<and> get_or_404 (snd (handle load db u req)) i = Some e' \<longrightarrow>
      user_id e' = user_id e) \<and>
   (get_or_404 db i = None \<and> get_or_404 (snd (handle load db u req)) i = Some e' \<longrightarrow>
      (\<exists>p. req = POST p) \<and> user_id e' = u)"
proof (cases req)
  case (POST p)
  then show ?thesis
    using create_expense_lookup [of load db u p i e'] by auto
next
  case GET_ALL
  then show ?thesis by (auto simp: get_expenses_def)
next
  case (GET j)
  then show ?thesis by (auto simp: get_expense_def split: option.splits)
next
  case (PATCH j p)
  then show ?thesis
    using update_expense_lookup [of load db u j p i e'] by auto
next
  case (DELETE j)
  then show ?thesis
    using delete_expense_lookup [of db u j i e'] by auto
qed

theorem owner_never_changes_witness:
  "get_or_404 sample_db 2 = Some \<lparr>eid = 2, title = ''Food'', amount = 40, user_id = 2\<rparr> \<and>
   get_or_404 (snd (handle schema_load sample_db 2 (PATCH 2 [(''title'', JStr ''Lunch'')]))) 2
     = Some \<lparr>eid = 2, title = ''Lunch'', amount = 40, user_id = 2\<rparr> \<and>
   user_id \<lparr>eid = 2, title = ''Lunch'', amount = 40 :: int, user_id = 2\<rparr>
     = user_id \<lparr>eid = 2, title = ''Food'', amount = 40 :: int, user_id = 2\<rparr> \<and>
   get_or_404 sample_db 3 = None \<and>
   get_or_404 (snd (handle schema_load sample_db 2
                      (POST [(''title'', JStr ''Tea''), (''amount'', JNum 3)]))) 3
     = Some \<lparr>eid = 3, title = ''Tea'', amount = 3, user_id = 2\<rparr> \<and>
   user_id \<lparr>eid = 3, title = ''Tea'', amount = 3 :: int, user_id = 2\<rparr> = 2"
proof -
  let ?e = "\<lparr>eid = 2, title = ''Food'', amount = 40 :: int, user_id = 2\<rparr>"
  let ?e' = "\<lparr>eid = 2, title = ''Lunch'', amount = 40 :: int, user_id = 2\<rparr>"
  let ?n = "\<lparr>eid = 3, title = ''Tea'', amount = 3 :: int, user_id = 2\<rparr>"
  have before: "get_or_404 sample_db 2 = Some ?e"
    by (simp add: get_or_404_def sample_db_def)
  have after: "get_or_404 (snd (handle schema_load sample_db 2 (PATCH 2 [(''title'', JStr ''Lunch'')]))) 2
                 = Some ?e'"
    by (simp add: update_expense_def get_or_404_def sample_db_def schema_load_def load_title_def
          load_amount_def update_commit_def Let_def)
  have absent: "get_or_404 sample_db 3 = None"
    by (simp add: get_or_404_def sample_db_def)
  have created: "get_or_404 (snd (handle schema_load sample_db 2
                    (POST [(''title'', JStr ''Tea''), (''amount'', JNum 3)]))) 3 = Some ?n"
    by (simp add: create_expense_def get_or_404_def sample_db_def schema_load_def load_title_def
          load_amount_def add_commit_def new_id_def Let_def)
  show ?thesis
    using before after absent created
      owner_never_changes [of sample_db 2 ?e schema_load 2 "PATCH 2 [(''title'', JStr ''Lunch'')]" ?e']
      owner_never_changes [of sample_db 3 ?e schema_load 2
        "POST [(''title'', JStr ''Tea''), (''amount'', JNum 3)]" ?n]
    by simp
qed

text \<open>
  C9. In update the ownership check comes before the validation of the body: on a record
  that exists and is not owned by the caller, update answers 401 with the message of the
  ownership check and leaves the table, whatever the body and whatever the schema makes
  of it; in particular the reply is never the 422 of a validation failure.
\<close>

theorem update_checks_owner_first:
  assumes "get_or_404 db i = Some e" and "user_id e \<noteq> u"
  shows "update_expense load db u i p = (Reply (Error no_access_patch) 401, db) \<and>
         (\<forall>m. fst (update_expense load db u i p) \<noteq> Reply (Messages m) 422)"
  using assms by (simp add: update_expense_def)

theorem update_checks_owner_first_witness:
  "get_or_404 sample_db 2 = Some \<lparr>eid = 2, title = ''Food'', amount = 40, user_id = 2\<rparr> \<and>
   user_id \<lparr>eid = 2, title = ''Food'', amount = 40 :: int, user_id = 2\<rparr> \<noteq> 1 \<and>
   schema_load True [(''amount'', JStr ''much'')] = Inl [(''amount'', [Malformed])] \<and>
   update_expense schema_load sample_db 1 2 [(''amount'', JStr ''much'')]
     = (Reply (Error no_access_patch) 401, sample_db)"
proof -
  let ?e = "\<lparr>eid = 2, title = ''Food'', amount = 40 :: int, user_id = 2\<rparr>"
  have found: "get_or_404 sample_db 2 = Some ?e"
    by (simp add: get_or_404_def sample_db_def)
  have other: "user_id ?e \<noteq> 1"
    by simp
  have malformed: "schema_load True [(''amount'', JStr ''much'')] = Inl [(''amount'', [Malformed])]"
    by (simp add: schema_load_def load_title_def load_amount_def)
  show ?thesis
    using found malformed
      update_checks_owner_first [where load = schema_load and p = "[(''amount'', JStr ''much'')]",
        OF found other]
    by simp
qed

text \<open>
  C10. On a record that exists and is owned by the caller, an update whose body passes
  the partial validation with neither a title nor an amount answers 200 with the dump of
  the record as it was, and every identifier of the table leads to the same record as
  before; when the identifiers of the table are distinct, as a primary key is, the table
  itself is unchanged.
\<close>

theorem update_empty_is_identity:
  assumes "get_or_404 db i = Some e" and "user_id e = u"
    and "load True p = Inr d" and "data_title d = None" and "data_amount d = None"
  shows "fst (update_expense load db u i p) = Reply (Single (dump e)) 200 \<and>
         (\<forall>j. get_or_404 (snd (update_expense load db u i p)) j = get_or_404 db j) \<and>
         (distinct (map eid db) \<longrightarrow> snd (update_expense load db u i p) = db)"
proof -
  have key: "eid e = i"
    using assms(1) by (rule get_or_404_eid)
  have run: "update_expense load db u i p = (Reply (Single (dump e)) 200, update_commit db e)"
    using assms by (simp add: update_expense_def Let_def)
  have same: "\<forall>j. get_or_404 (update_commit db e) j = get_or_404 db j"
    using assms(1) key by (simp add: get_or_404_update_commit)
  have "distinct (map eid db) \<longrightarrow> update_commit db e = db"
    using assms(1) by (simp add: update_commit_same get_or_404_mem)
  then show ?thesis
    using same by (simp add: run)
qed

theorem update_empty_is_identity_witness:
  "get_or_404 sample_db 1 = Some \<lparr>eid = 1, title = ''Rent'', amount = 100, user_id = 1\<rparr> \<and>
   schema_load True [] = Inr \<lparr>data_title = None, data_amount = None\<rparr> \<and>
   distinct (map eid sample_db) \<and>
   update_expense schema_load sample_db 1 1 []
     = (Reply (Single \<lparr>out_id = 1, out_title = ''Rent'', out_amount = 100\<rparr>) 200, sample_db)"
proof -
  let ?e = "\<lparr>eid = 1, title = ''Rent'', amount = 100 :: int, user_id = 1\<rparr>"
  let ?d = "\<lparr>data_title = None, data_amount = None :: int option\<rparr>"
  have found: "get_or_404 sample_db 1 = Some ?e"
    by (simp add: get_or_404_def sample_db_def)
  have owner: "user_id ?e = 1"
    by simp
  have loaded: "schema_load True [] = Inr ?d"
    by (simp add: schema_load_def load_title_def load_amount_def)
  have no_title: "data_title ?d = None" and no_amount: "data_amount ?d = None"
    by simp_all
  have key: "distinct (map eid sample_db)"
    by (simp add: sample_db_def)
  show ?thesis
    using found loaded key
      update_empty_is_identity [where load = schema_load and p = "[]",
        OF found owner loaded no_title no_amount]
    by (simp add: dump_def prod_eq_iff)
qed

end
